theory Spec2Isabelle
  imports Main
begin

section \<open>The EnOcean cover entity (cover.py)\<close>

text \<open>
  The module defines one class, \<open>EnOceanCover\<close>. Its methods mutate the object and call two
  methods of its base classes: \<open>schedule_update_ha_state()\<close>, the state-change notification
  to the host, and \<open>send_command(data, optional, packet_type)\<close>, which hands one telegram to
  the radio transport. Both are recorded here as effects, in the order of the calls.
  Python integers are unbounded, so bytes are \<open>int\<close>; the tri-state attributes
  (\<open>None\<close>, \<open>True\<close>, \<open>False\<close>) are \<open>bool option\<close>.
\<close>

subsection \<open>Data\<close>

datatype CoverDeviceClass =
  AWNING | BLIND | CURTAIN | DAMPER | DOOR | GARAGE | GATE | SHADE | SHUTTER | WINDOW

record EnOceanCover =
  sender_id :: "int list"
  dev_id :: "int list"
  dev_name :: string
  reverse :: bool
  attr_device_class :: "CoverDeviceClass option"
  attr_is_closed :: "bool option"
  attr_is_closing :: "bool option"
  attr_is_opening :: "bool option"
  attr_current_cover_position :: "int option"

text \<open>The inbound packet; \<open>value_changed\<close> reads its \<open>data\<close> field only.\<close>

record packet =
  packet_type :: int
  data :: "int list"
  optional :: "int list"

datatype effect =
  ScheduleUpdate
| SendCommand "int list" "int list" int

datatype py_error = IndexError

text \<open>
  The outcome of a method that may raise: the object and the effects as they are when the
  method returns, or as they are when the exception leaves it.
\<close>

datatype outcome =
  Returned EnOceanCover "effect list"
| Raised py_error EnOceanCover "effect list"

fun state_of :: "outcome \<Rightarrow> EnOceanCover" where
  "state_of (Returned c es) = c"
| "state_of (Raised e c es) = c"

fun effects_of :: "outcome \<Rightarrow> effect list" where
  "effects_of (Returned c es) = es"
| "effects_of (Raised e c es) = es"

fun raised :: "outcome \<Rightarrow> py_error option" where
  "raised (Returned c es) = None"
| "raised (Raised e c es) = Some e"

subsection \<open>Construction\<close>

text \<open>
  Modelled from the spec: \<open>__init__\<close> assigns \<open>_attr_is_closed = None\<close> itself, but
  \<open>_attr_is_closing\<close>, \<open>_attr_is_opening\<close> and \<open>_attr_current_cover_position\<close> get their
  first values from the host's cover base class, which is not part of the module. The
  specification gives the initial state as position unknown, closed flag unknown and motion
  flags unset.
\<close>

definition init :: "int list \<Rightarrow> int list \<Rightarrow> string \<Rightarrow> bool \<Rightarrow> CoverDeviceClass option \<Rightarrow> EnOceanCover" where
  "init sender dev name rv cls =
     \<lparr> sender_id = sender, dev_id = dev, dev_name = name, reverse = rv,
       attr_device_class = cls, attr_is_closed = None, attr_is_closing = None,
       attr_is_opening = None, attr_current_cover_position = None \<rparr>"

subsection \<open>Python list operations\<close>

text \<open>\<open>xs[i:j]\<close> for \<open>0 \<le> i \<le> j\<close>: never raises, shorter when the list is.\<close>

definition py_slice :: "nat \<Rightarrow> nat \<Rightarrow> 'a list \<Rightarrow> 'a list" where
  "py_slice i j xs = take (j - i) (drop i xs)"

text \<open>\<open>xs[i]\<close> for \<open>0 \<le> i\<close>: raises IndexError out of range.\<close>

definition py_index :: "'a list \<Rightarrow> nat \<Rightarrow> py_error + 'a" where
  "py_index xs i = (if i < length xs then Inr (xs ! i) else Inl IndexError)"

subsection \<open>The command encoder\<close>

definition press_up_button :: "EnOceanCover \<Rightarrow> effect list" where
  "press_up_button self =
     [SendCommand ([0xF6, 0x70] @ sender_id self @ [0x30]) ([0x03] @ dev_id self @ [0x40]) 0x01]"

definition press_down_button :: "EnOceanCover \<Rightarrow> effect list" where
  "press_down_button self =
     [SendCommand ([0xF6, 0x50] @ sender_id self @ [0x30]) ([0x03] @ dev_id self @ [0x40]) 0x01]"

definition release_button :: "EnOceanCover \<Rightarrow> effect list" where
  "release_button self =
     [SendCommand ([0xF6, 0x00] @ sender_id self @ [0x20]) ([0x03] @ dev_id self @ [0x40]) 0x01]"

definition open_cover :: "EnOceanCover \<Rightarrow> EnOceanCover \<times> effect list" where
  "open_cover self0 =
     (let self = self0\<lparr>attr_is_opening := Some True\<rparr> in
      (self, [ScheduleUpdate]
             @ (if reverse self then press_down_button self else press_up_button self)
             @ release_button self))"

definition close_cover :: "EnOceanCover \<Rightarrow> EnOceanCover \<times> effect list" where
  "close_cover self0 =
     (let self = self0\<lparr>attr_is_closing := Some True\<rparr> in
      (self, [ScheduleUpdate]
             @ (if reverse self then press_up_button self else press_down_button self)
             @ release_button self))"

definition stop_cover :: "EnOceanCover \<Rightarrow> EnOceanCover \<times> effect list" where
  "stop_cover self0 =
     (let self = self0\<lparr>attr_is_closing := None, attr_is_opening := None\<rparr> in
      (self, [ScheduleUpdate] @ press_down_button self @ release_button self))"

definition open_cover_tilt :: "EnOceanCover \<Rightarrow> EnOceanCover \<times> effect list" where
  "open_cover_tilt self0 =
     (let self = self0\<lparr>attr_is_opening := Some True\<rparr> in
      (self, [ScheduleUpdate]
             @ (if reverse self then press_down_button self else press_up_button self)
             @ release_button self
             @ (if reverse self then press_down_button self else press_up_button self)
             @ release_button self))"

definition close_cover_tilt :: "EnOceanCover \<Rightarrow> EnOceanCover \<times> effect list" where
  "close_cover_tilt self0 =
     (let self = self0\<lparr>attr_is_closing := Some True\<rparr> in
      (self, [ScheduleUpdate]
             @ (if reverse self then press_up_button self else press_down_button self)
             @ release_button self
             @ (if reverse self then press_up_button self else press_down_button self)
             @ release_button self))"

definition stop_cover_tilt :: "EnOceanCover \<Rightarrow> EnOceanCover \<times> effect list" where
  "stop_cover_tilt self0 =
     (let self = self0\<lparr>attr_is_closing := None, attr_is_opening := None\<rparr> in
      (self, [ScheduleUpdate] @ press_down_button self @ release_button self))"

subsection \<open>The telegram decoder\<close>

text \<open>
  \<open>packet.data[0]\<close> raises IndexError on an empty list; \<open>and\<close> evaluates the slice
  comparison only when the first test holds; \<open>packet.data[1]\<close> can raise as well. Both
  reads come before the first assignment.
\<close>

definition value_changed :: "EnOceanCover \<Rightarrow> packet \<Rightarrow> outcome" where
  "value_changed self packet =
     (case py_index (data packet) 0 of
        Inl e \<Rightarrow> Raised e self []
      | Inr d0 \<Rightarrow>
          if d0 = 0xD2 \<and> py_slice 5 8 (data packet) = dev_id self then
            (case py_index (data packet) 1 of
               Inl e \<Rightarrow> Raised e self []
             | Inr val \<Rightarrow>
                 if val = 0x7F then
                   Returned (self\<lparr>attr_is_closed := None\<rparr>) [ScheduleUpdate]
                 else
                   let self1 = self\<lparr>attr_is_closing := None, attr_is_opening := None\<rparr> in
                   if val = 0x00 then
                     Returned (self1\<lparr>attr_current_cover_position := Some 0,
                                     attr_is_closed := Some False\<rparr>) [ScheduleUpdate]
                   else if val = 0x64 then
                     Returned (self1\<lparr>attr_current_cover_position := Some 100,
                                     attr_is_closed := Some True\<rparr>) [ScheduleUpdate]
                   else
                     Returned (self1\<lparr>attr_current_cover_position := Some val\<rparr>)
                              [ScheduleUpdate])
          else Returned self [])"

subsection \<open>Sequences of calls\<close>

datatype event =
  OpenCover | CloseCover | StopCover
| OpenCoverTilt | CloseCoverTilt | StopCoverTilt
| ValueChanged packet

fun call :: "event \<Rightarrow> EnOceanCover \<Rightarrow> outcome" where
  "call OpenCover self = (case open_cover self of (c, es) \<Rightarrow> Returned c es)"
| "call CloseCover self = (case close_cover self of (c, es) \<Rightarrow> Returned c es)"
| "call StopCover self = (case stop_cover self of (c, es) \<Rightarrow> Returned c es)"
| "call OpenCoverTilt self = (case open_cover_tilt self of (c, es) \<Rightarrow> Returned c es)"
| "call CloseCoverTilt self = (case close_cover_tilt self of (c, es) \<Rightarrow> Returned c es)"
| "call StopCoverTilt self = (case stop_cover_tilt self of (c, es) \<Rightarrow> Returned c es)"
| "call (ValueChanged p) self = value_changed self p"

text \<open>
  The object after a sequence of calls made by the host: an exception leaves a call, the
  object stays as it was at that moment and the next call works on it.
\<close>

fun run :: "EnOceanCover \<Rightarrow> event list \<Rightarrow> EnOceanCover" where
  "run self [] = self"
| "run self (ev # evs) = run (state_of (call ev self)) evs"

text \<open>The telegrams among the effects, as (data, optional, type).\<close>

fun telegrams :: "effect list \<Rightarrow> (int list \<times> int list \<times> int) list" where
  "telegrams [] = []"
| "telegrams (ScheduleUpdate # es) = telegrams es"
| "telegrams (SendCommand d opt t # es) = (d, opt, t) # telegrams es"

subsection \<open>The position invariant\<close>

definition position_in_range :: "EnOceanCover \<Rightarrow> bool" where
  "position_in_range self =
     (case attr_current_cover_position self of
        None \<Rightarrow> True
      | Some p \<Rightarrow> 0 \<le> p \<and> p \<le> 100)"

text \<open>
  A call whose telegram, if it is one that the device with address \<open>dev\<close> accepts, carries
  a value byte that is the moving sentinel or a position from 0 to 100.
\<close>

fun value_byte_ok :: "int list \<Rightarrow> event \<Rightarrow> bool" where
  "value_byte_ok dev (ValueChanged p) =
     (case data p of
        d0 # val # rest \<Rightarrow>
          \<not> (d0 = 0xD2 \<and> py_slice 5 8 (data p) = dev) \<or> val = 0x7F \<or> (0 \<le> val \<and> val \<le> 100)
      | _ \<Rightarrow> True)"
| "value_byte_ok dev ev = True"

subsection \<open>A concrete device\<close>

definition shutter :: EnOceanCover where
  "shutter = init [0xFF, 0xD9, 0x7F, 0x81] [0x05, 0x1A, 0x2B] ''Shutter'' False None"

text \<open>A VLD telegram from that device with value byte \<open>v\<close>.\<close>

definition position_telegram :: "int \<Rightarrow> packet" where
  "position_telegram v =
     \<lparr> packet_type = 0x01, data = [0xD2, v, 0x00, 0x00, 0x00, 0x05, 0x1A, 0x2B, 0x00],
       optional = [] \<rparr>"

section \<open>Properties of the decoder\<close>

text \<open>
  C4: a telegram of type 0xD2 addressed to the device whose value byte is 0x7F makes the
  closed flag unknown and changes neither the position nor the two motion flags, whatever
  the state was before; the call returns and notifies the host once.
\<close>

theorem value_changed_moving:
  "data packet = 0xD2 # 0x7F # rest \<Longrightarrow> py_slice 5 8 (data packet) = dev_id self \<Longrightarrow>
   raised (value_changed self packet) = None \<and>
   effects_of (value_changed self packet) = [ScheduleUpdate] \<and>
   attr_is_closed (state_of (value_changed self packet)) = None \<and>
   attr_current_cover_position (state_of (value_changed self packet)) =
     attr_current_cover_position self \<and>
   attr_is_opening (state_of (value_changed self packet)) = attr_is_opening self \<and>
   attr_is_closing (state_of (value_changed self packet)) = attr_is_closing self"
  by (simp add: value_changed_def py_index_def)

theorem value_changed_moving_witness:
  "data (position_telegram 0x7F) = 0xD2 # 0x7F # [0x00, 0x00, 0x00, 0x05, 0x1A, 0x2B, 0x00] \<and>
   py_slice 5 8 (data (position_telegram 0x7F)) = dev_id (fst (open_cover shutter)) \<and>
   attr_is_closed (state_of (value_changed (fst (open_cover shutter)) (position_telegram 0x7F))) = None \<and>
   attr_current_cover_position
     (state_of (value_changed (fst (open_cover shutter)) (position_telegram 0x7F))) = None \<and>
   attr_is_opening (state_of (value_changed (fst (open_cover shutter)) (position_telegram 0x7F)))
     = Some True"
proof -
  have d: "data (position_telegram 0x7F) = 0xD2 # 0x7F # [0x00, 0x00, 0x00, 0x05, 0x1A, 0x2B, 0x00]"
    by (simp add: position_telegram_def)
  have a: "py_slice 5 8 (data (position_telegram 0x7F)) = dev_id (fst (open_cover shutter))"
    by (simp add: position_telegram_def py_slice_def open_cover_def shutter_def init_def Let_def)
  have o: "attr_is_opening (fst (open_cover shutter)) = Some True"
    and p: "attr_current_cover_position (fst (open_cover shutter)) = None"
    by (simp_all add: open_cover_def shutter_def init_def Let_def)
  show ?thesis
    using value_changed_moving [OF d a] d a o p by simp
qed

text \<open>
  C3: a packet whose first data byte is not 0xD2 (or is missing), or whose data bytes 5 to 7
  are not the device's address, changes nothing in the object and notifies nobody; when the
  data field has a first byte at all, the call returns without raising.
\<close>

theorem value_changed_irrelevant:
  "py_index (data packet) 0 \<noteq> Inr 0xD2 \<or> py_slice 5 8 (data packet) \<noteq> dev_id self \<Longrightarrow>
   state_of (value_changed self packet) = self \<and>
   effects_of (value_changed self packet) = [] \<and>
   (data packet \<noteq> [] \<longrightarrow> raised (value_changed self packet) = None)"
  by (cases "data packet") (auto simp add: value_changed_def py_index_def)

theorem value_changed_irrelevant_witness:
  "py_slice 5 8 (data (position_telegram 0x32)) \<noteq> dev_id (shutter\<lparr>dev_id := [0x05, 0x1A, 0x2C]\<rparr>) \<and>
   data (position_telegram 0x32) \<noteq> [] \<and>
   state_of (value_changed (shutter\<lparr>dev_id := [0x05, 0x1A, 0x2C]\<rparr>) (position_telegram 0x32))
     = shutter\<lparr>dev_id := [0x05, 0x1A, 0x2C]\<rparr> \<and>
   effects_of (value_changed (shutter\<lparr>dev_id := [0x05, 0x1A, 0x2C]\<rparr>) (position_telegram 0x32)) = [] \<and>
   raised (value_changed (shutter\<lparr>dev_id := [0x05, 0x1A, 0x2C]\<rparr>) (position_telegram 0x32)) = None"
proof -
  have a: "py_slice 5 8 (data (position_telegram 0x32)) \<noteq> dev_id (shutter\<lparr>dev_id := [0x05, 0x1A, 0x2C]\<rparr>)"
    by (simp add: position_telegram_def py_slice_def)
  have n: "data (position_telegram 0x32) \<noteq> []"
    by (simp add: position_telegram_def)
  show ?thesis
    using value_changed_irrelevant [of "position_telegram 0x32" "shutter\<lparr>dev_id := [0x05, 0x1A, 0x2C]\<rparr>"] a n
    by blast
qed

text \<open>
  C10: decoding the same packet a second time, right after the first, leaves the object as
  the first decoding left it, for every object and every packet.
\<close>

theorem value_changed_idempotent:
  "state_of (value_changed (state_of (value_changed self packet)) packet) =
   state_of (value_changed self packet)"
  by (simp add: value_changed_def py_index_def Let_def split: sum.splits)

text \<open>
  What the decoder does with an accepted telegram whose value byte is not 0x7F: the byte
  becomes the position, both motion flags are cleared, and the closed flag is assigned at
  0x00 and 0x64 only.
\<close>

lemma value_changed_stopped:
  "data packet = 0xD2 # val # rest \<Longrightarrow> py_slice 5 8 (data packet) = dev_id self \<Longrightarrow>
   val \<noteq> 0x7F \<Longrightarrow>
   value_changed self packet =
     Returned (self\<lparr>attr_is_closing := None, attr_is_opening := None,
                     attr_current_cover_position := Some val,
                     attr_is_closed := (if val = 0x00 then Some False
                                        else if val = 0x64 then Some True
                                        else attr_is_closed self)\<rparr>)
              [ScheduleUpdate]"
  by (simp add: value_changed_def py_index_def Let_def)

text \<open>
  C1: for a value byte from 0 to 100 the decoder stores the byte as the position and clears
  both motion flags, but in the branch for the values between 1 and 99 it does not assign the
  closed flag, which keeps what it held. After a telegram with value 0x64 and then one with
  value 0x01 the position is 1 and the closed flag still says closed.
\<close>

theorem value_changed_keeps_closed_flag:
  "attr_current_cover_position
     (run shutter [ValueChanged (position_telegram 0x64), ValueChanged (position_telegram 0x01)])
     = Some 1 \<and>
   attr_is_closed
     (run shutter [ValueChanged (position_telegram 0x64), ValueChanged (position_telegram 0x01)])
     = Some True"
  by (simp add: shutter_def init_def position_telegram_def value_changed_def py_index_def
        py_slice_def Let_def)

text \<open>
  C5, as stated: a packet with an empty data field makes the decoder raise IndexError at
  its first read.
\<close>

theorem value_changed_empty_data_raises:
  "raised (value_changed shutter \<lparr>packet_type = 0x01, data = [], optional = []\<rparr>)
     = Some IndexError"
  by (simp add: value_changed_def py_index_def)

lemma slice_length:
  "py_slice 5 8 xs = dev \<Longrightarrow> dev \<noteq> [] \<Longrightarrow> 5 + length dev \<le> length xs"
proof -
  assume a: "py_slice 5 8 xs = dev" and n: "dev \<noteq> []"
  have "length dev = min 3 (length xs - 5)"
    using a by (auto simp add: py_slice_def)
  moreover have "0 < length dev" using n by simp
  ultimately show ?thesis by arith
qed

text \<open>
  C5, amended: when the data field is not empty and the device address is not empty, the
  decoder returns without raising, and a packet with fewer than 5 plus the address length
  data bytes (fewer than 8 for a three-byte address) is ignored: same object, no effect.
\<close>

theorem value_changed_never_raises:
  "data packet \<noteq> [] \<Longrightarrow> dev_id self \<noteq> [] \<Longrightarrow>
   raised (value_changed self packet) = None \<and>
   (length (data packet) < 5 + length (dev_id self) \<longrightarrow>
      value_changed self packet = Returned self [])"
proof -
  assume d: "data packet \<noteq> []" and n: "dev_id self \<noteq> []"
  show ?thesis
  proof (cases "hd (data packet) = 0xD2 \<and> py_slice 5 8 (data packet) = dev_id self")
    case True
    then have "5 + length (dev_id self) \<le> length (data packet)"
      using slice_length n by blast
    then show ?thesis
      using True d by (simp add: value_changed_def py_index_def Let_def hd_conv_nth)
  next
    case False
    then show ?thesis
      using d by (auto simp add: value_changed_def py_index_def hd_conv_nth)
  qed
qed

theorem value_changed_never_raises_witness:
  "data \<lparr>packet_type = 0x01, data = [0xD2, 0x32, 0x00], optional = []\<rparr> \<noteq> [] \<and>
   dev_id shutter \<noteq> [] \<and>
   length (data \<lparr>packet_type = 0x01, data = [0xD2, 0x32, 0x00], optional = []\<rparr>)
     < 5 + length (dev_id shutter) \<and>
   value_changed shutter \<lparr>packet_type = 0x01, data = [0xD2, 0x32, 0x00], optional = []\<rparr>
     = Returned shutter []"
proof -
  have d: "data \<lparr>packet_type = 0x01, data = [0xD2, 0x32, 0x00], optional = []\<rparr> \<noteq> []"
    by simp
  have n: "dev_id shutter \<noteq> []"
    by (simp add: shutter_def init_def)
  have l: "length (data \<lparr>packet_type = 0x01, data = [0xD2, 0x32, 0x00], optional = []\<rparr>)
             < 5 + length (dev_id shutter)"
    by (simp add: shutter_def init_def)
  show ?thesis
    using value_changed_never_raises [OF d n] d n l by blast
qed

text \<open>
  C9, as stated: a telegram addressed to the device with value byte 200 leaves the position
  at 200, outside 0 to 100.
\<close>

theorem position_out_of_range:
  "\<not> position_in_range (run shutter [ValueChanged (position_telegram 0xC8)])"
  by (simp add: position_in_range_def shutter_def init_def position_telegram_def
        value_changed_def py_index_def py_slice_def Let_def)

lemma call_position:
  "position_in_range self \<Longrightarrow> value_byte_ok (dev_id self) ev \<Longrightarrow>
   position_in_range (state_of (call ev self)) \<and> dev_id (state_of (call ev self)) = dev_id self"
  by (cases ev)
     (auto simp add: position_in_range_def open_cover_def close_cover_def stop_cover_def
        open_cover_tilt_def close_cover_tilt_def stop_cover_tilt_def Let_def value_changed_def
        py_index_def split: sum.splits list.splits option.splits if_splits)

lemma run_position:
  "position_in_range self \<Longrightarrow> \<forall>ev \<in> set evs. value_byte_ok (dev_id self) ev \<Longrightarrow>
   position_in_range (run self evs)"
proof (induction evs arbitrary: self)
  case Nil
  then show ?case by simp
next
  case (Cons ev evs)
  then show ?case using call_position [of self ev] by simp
qed

text \<open>
  C9, amended: from a new object, after any sequence of commands and decoded telegrams in
  which every telegram that the device accepts carries the value byte 0x7F or a value from
  0 to 100, the position is unknown or lies between 0 and 100.
\<close>

theorem position_in_range_reachable:
  "\<forall>ev \<in> set evs. value_byte_ok dev ev \<Longrightarrow>
   position_in_range (run (init sender dev name rv cls) evs)"
proof -
  assume a: "\<forall>ev \<in> set evs. value_byte_ok dev ev"
  have i: "position_in_range (init sender dev name rv cls)"
    by (simp add: position_in_range_def init_def)
  have d: "dev_id (init sender dev name rv cls) = dev"
    by (simp add: init_def)
  show ?thesis
    using run_position [OF i] a d by simp
qed

theorem position_in_range_reachable_witness:
  "attr_current_cover_position
     (run (init [0xFF, 0xD9, 0x7F, 0x81] [0x05, 0x1A, 0x2B] ''Shutter'' False None)
        [CloseCover, ValueChanged (position_telegram 0x7F),
         ValueChanged (position_telegram 0x32)]) = Some 50 \<and>
   position_in_range
     (run (init [0xFF, 0xD9, 0x7F, 0x81] [0x05, 0x1A, 0x2B] ''Shutter'' False None)
        [CloseCover, ValueChanged (position_telegram 0x7F),
         ValueChanged (position_telegram 0x32)])"
proof -
  have a: "\<forall>ev \<in> set [CloseCover, ValueChanged (position_telegram 0x7F),
                      ValueChanged (position_telegram 0x32)].
             value_byte_ok [0x05, 0x1A, 0x2B] ev"
    by (simp add: position_telegram_def)
  have p: "attr_current_cover_position
     (run (init [0xFF, 0xD9, 0x7F, 0x81] [0x05, 0x1A, 0x2B] ''Shutter'' False None)
        [CloseCover, ValueChanged (position_telegram 0x7F),
         ValueChanged (position_telegram 0x32)]) = Some 50"
    by (simp add: init_def position_telegram_def close_cover_def value_changed_def
          py_index_def py_slice_def Let_def)
  show ?thesis
    using position_in_range_reachable [OF a] p by blast
qed

section \<open>Properties of the encoder\<close>

text \<open>
  C2: the three button methods send data 0xF6, the subcommand, the sender address and the
  status byte, with optional field 0x03, the device address, 0x40, and type 0x01: subcommand
  0x70 and status 0x30 for press-up, 0x50 and 0x30 for press-down, 0x00 and 0x20 for
  release. Every telegram sent by any method of the object has one of these three forms.
\<close>

theorem telegram_form:
  "press_up_button self =
     [SendCommand ([0xF6, 0x70] @ sender_id self @ [0x30]) ([0x03] @ dev_id self @ [0x40]) 0x01] \<and>
   press_down_button self =
     [SendCommand ([0xF6, 0x50] @ sender_id self @ [0x30]) ([0x03] @ dev_id self @ [0x40]) 0x01] \<and>
   release_button self =
     [SendCommand ([0xF6, 0x00] @ sender_id self @ [0x20]) ([0x03] @ dev_id self @ [0x40]) 0x01] \<and>
   (\<forall>(d, opt, t) \<in> set (telegrams (effects_of (call ev self))).
      opt = [0x03] @ dev_id self @ [0x40] \<and> t = 0x01 \<and>
      (\<exists>subcommand status.
         d = [0xF6, subcommand] @ sender_id self @ [status] \<and>
         (subcommand = 0x70 \<and> status = 0x30 \<or>
          subcommand = 0x50 \<and> status = 0x30 \<or>
          subcommand = 0x00 \<and> status = 0x20)))"
proof -
  have v: "telegrams (effects_of (value_changed self p)) = []" for p
    by (simp add: value_changed_def py_index_def Let_def split: sum.splits)
  show ?thesis
    by (cases ev)
       (auto simp add: v press_up_button_def press_down_button_def release_button_def
          open_cover_def close_cover_def stop_cover_def open_cover_tilt_def
          close_cover_tilt_def stop_cover_tilt_def Let_def)
qed

theorem telegram_form_witness:
  "([0xF6, 0x70, 0xFF, 0xD9, 0x7F, 0x81, 0x30], [0x03, 0x05, 0x1A, 0x2B, 0x40], 0x01)
     \<in> set (telegrams (effects_of (call OpenCover shutter))) \<and>
   [0x03, 0x05, 0x1A, 0x2B, 0x40] = [0x03] @ dev_id shutter @ [0x40] \<and>
   (\<exists>subcommand status.
      [0xF6, 0x70, 0xFF, 0xD9, 0x7F, 0x81, 0x30] = [0xF6, subcommand] @ sender_id shutter @ [status] \<and>
      (subcommand = 0x70 \<and> status = 0x30 \<or>
       subcommand = 0x50 \<and> status = 0x30 \<or>
       subcommand = 0x00 \<and> status = 0x20))"
proof -
  have m: "([0xF6, 0x70, 0xFF, 0xD9, 0x7F, 0x81, 0x30], [0x03, 0x05, 0x1A, 0x2B, 0x40], 0x01)
             \<in> set (telegrams (effects_of (call OpenCover shutter)))"
    by (simp add: shutter_def init_def open_cover_def press_up_button_def release_button_def
          Let_def)
  show ?thesis
    using telegram_form [of shutter OpenCover] m by fastforce
qed

text \<open>
  C6: with the orientation reversed, opening sends the telegrams that closing sends with the
  normal orientation, and closing sends those of opening; stopping sends press-down and then
  release in both orientations.
\<close>

theorem orientation_symmetry:
  "telegrams (snd (open_cover (self\<lparr>reverse := True\<rparr>))) =
     telegrams (snd (close_cover (self\<lparr>reverse := False\<rparr>))) \<and>
   telegrams (snd (close_cover (self\<lparr>reverse := True\<rparr>))) =
     telegrams (snd (open_cover (self\<lparr>reverse := False\<rparr>))) \<and>
   telegrams (snd (stop_cover (self\<lparr>reverse := True\<rparr>))) =
     telegrams (snd (stop_cover (self\<lparr>reverse := False\<rparr>))) \<and>
   telegrams (snd (stop_cover self)) = telegrams (press_down_button self @ release_button self)"
  by (simp add: press_up_button_def press_down_button_def release_button_def
        open_cover_def close_cover_def stop_cover_def Let_def)

text \<open>
  C7: with the normal orientation, closing the tilt sends four telegrams, press-down,
  release, press-down, release, whose second data bytes are 0x50, 0x00, 0x50, 0x00.
\<close>

theorem close_cover_tilt_sequence:
  "\<not> reverse self \<Longrightarrow>
   telegrams (snd (close_cover_tilt self)) =
     telegrams (press_down_button self @ release_button self
                @ press_down_button self @ release_button self) \<and>
   length (telegrams (snd (close_cover_tilt self))) = 4 \<and>
   map (\<lambda>(d, opt, t). d ! 1) (telegrams (snd (close_cover_tilt self))) = [0x50, 0x00, 0x50, 0x00]"
  by (simp add: press_down_button_def release_button_def close_cover_tilt_def Let_def)

theorem close_cover_tilt_sequence_witness:
  "\<not> reverse shutter \<and>
   length (telegrams (snd (close_cover_tilt shutter))) = 4 \<and>
   map (\<lambda>(d, opt, t). d ! 1) (telegrams (snd (close_cover_tilt shutter))) = [0x50, 0x00, 0x50, 0x00]"
proof -
  have r: "\<not> reverse shutter"
    by (simp add: shutter_def init_def)
  show ?thesis
    using close_cover_tilt_sequence [OF r] r by blast
qed

lemma open_cover_flags:
  "attr_is_opening (fst (open_cover self)) = Some True \<and>
   attr_is_closing (fst (open_cover self)) = attr_is_closing self"
  by (simp add: open_cover_def Let_def)

lemma close_cover_flags:
  "attr_is_closing (fst (close_cover self)) = Some True \<and>
   attr_is_opening (fst (close_cover self)) = attr_is_opening self"
  by (simp add: close_cover_def Let_def)

text \<open>
  C8: opening sets the opening flag and leaves the closing flag as it is, and closing does
  the same the other way round. On a new object, closing and then opening leaves both flags
  set.
\<close>

theorem open_after_close_sets_both_flags:
  "attr_is_opening (run shutter [CloseCover, OpenCover]) = Some True \<and>
   attr_is_closing (run shutter [CloseCover, OpenCover]) = Some True"
  by (simp add: shutter_def init_def open_cover_def close_cover_def Let_def)

end
